theory Spec2Isabelle
  imports Main "HOL-Library.AList" "HOL-Library.Sublist"
begin

section \<open>Data model\<close>

subsection \<open>Python values\<close>

text \<open>
  The values held by schema fields (\<open>enum\<close>, \<open>const\<close>, \<open>default\<close>), by the wizard state
  and by raw schema dictionaries are modelled by their JSON fragment: \<open>None\<close>, booleans,
  integers, strings, lists and dictionaries.  A dictionary is an association list in
  insertion order (Python dictionaries iterate in insertion order); item assignment is
  \<open>AList.update\<close>, which overwrites in place or appends at the end.
\<close>

datatype json =
    JNull
  | JBool bool
  | JInt int
  | JStr string
  | JList "json list"
  | JDict "(string \<times> json) list"

subsection \<open>Schema nodes\<close>

text \<open>\<open>openapi_pydantic.DataType\<close>.\<close>

datatype DataType = DT_NULL | DT_STRING | DT_OBJECT | DT_ARRAY | DT_NUMBER | DT_BOOLEAN | DT_INTEGER

text \<open>The \<open>type\<close> field: absent, one \<open>DataType\<close>, or a list of them.\<close>

datatype schema_type = TypeNone | TypeOne DataType | TypeMany "DataType list"

text \<open>\<open>openapi_pydantic.Discriminator\<close>.\<close>

datatype Discriminator = Discriminator (propertyName: string) (mapping: "(string \<times> string) list option")

text \<open>
  The fields of \<open>Schema\<close> / \<open>ResolvedSchema\<close> that the functions below read.  An optional
  field is an \<open>option\<close>; \<open>const\<close> and \<open>default\<close> hold \<open>JNull\<close> when unset, as the Python
  attributes hold \<open>None\<close>.  \<open>additionalProperties\<close> is absent, a boolean (\<open>Inl\<close>) or a
  schema (\<open>Inr\<close>).
\<close>

datatype Schema = Schema
  (title: "string option")
  (type: schema_type)
  (schema_format: "string option")
  (enum: "json list option")
  (const: json)
  (schema_default: json)
  (required: "string list option")
  (properties: "(string \<times> Schema) list option")
  (prefixItems: "Schema list option")
  (items: "Schema option")
  (uniqueItems: "bool option")
  (additionalProperties: "(bool + Schema) option")
  (anyOf: "Schema list option")
  (oneOf: "Schema list option")
  (discriminator: "Discriminator option")
  (readOnly: "bool option")
  (minItems: "int option")
  (maxItems: "int option")

text \<open>\<open>Schema()\<close>: every field unset.\<close>

definition empty_schema :: Schema where
  "empty_schema = Schema None TypeNone None None JNull JNull None None None None None None
     None None None None None None"

text \<open>Python truthiness of optional fields.\<close>

definition truthy_list :: "'a list option \<Rightarrow> bool" where
  "truthy_list x = (case x of None \<Rightarrow> False | Some xs \<Rightarrow> xs \<noteq> [])"

definition truthy_bool :: "bool option \<Rightarrow> bool" where
  "truthy_bool x = (case x of None \<Rightarrow> False | Some b \<Rightarrow> b)"

definition truthy_str :: "string option \<Rightarrow> bool" where
  "truthy_str x = (case x of None \<Rightarrow> False | Some s \<Rightarrow> s \<noteq> [])"

definition truthy_additional :: "(bool + Schema) option \<Rightarrow> bool" where
  "truthy_additional x = (case x of None \<Rightarrow> False | Some (Inl b) \<Rightarrow> b | Some (Inr s) \<Rightarrow> True)"

section \<open>mapper.py\<close>

datatype InputType =
    TEXT | EMAIL | PASSWORD | URI | UUID | FILE_PATH | DIRECTORY_PATH | IPV4 | IPV6
  | INTEGER | FLOAT
  | DATE | TIME | DATETIME | DURATION
  | BOOLEAN
  | ENUM
  | LIST | TUPLE | SET | DICT | OBJECT | UNION | DISCRIMINATED_UNION
  | ANY | NULL

definition is_complex :: "InputType \<Rightarrow> bool" where
  "is_complex t = (t \<in> {LIST, TUPLE, SET, DICT, OBJECT, UNION, DISCRIMINATED_UNION})"

definition property_to_input_type :: "Schema \<Rightarrow> InputType" where
  "property_to_input_type prop =
    (if truthy_list (enum prop) then ENUM
     else if discriminator prop \<noteq> None then DISCRIMINATED_UNION
     else if truthy_list (anyOf prop) \<or> truthy_list (oneOf prop) then UNION
     else (case type prop of
         TypeOne DT_STRING \<Rightarrow>
           (if schema_format prop = Some ''email'' then EMAIL
            else if schema_format prop = Some ''password'' then PASSWORD
            else if schema_format prop = Some ''uri'' then URI
            else if schema_format prop = Some ''uuid'' then UUID
            else if schema_format prop = Some ''ipv4'' then IPV4
            else if schema_format prop = Some ''ipv6'' then IPV6
            else TEXT)
       | TypeOne DT_NUMBER \<Rightarrow> FLOAT
       | TypeOne DT_INTEGER \<Rightarrow> INTEGER
       | TypeOne DT_BOOLEAN \<Rightarrow> BOOLEAN
       | TypeOne DT_ARRAY \<Rightarrow>
           (if truthy_list (prefixItems prop) then TUPLE
            else if truthy_bool (uniqueItems prop) then SET
            else LIST)
       | TypeOne DT_OBJECT \<Rightarrow>
           (if truthy_list (properties prop) then OBJECT
            else if truthy_additional (additionalProperties prop) then DICT
            else ANY)
       | TypeOne DT_NULL \<Rightarrow> NULL
       | _ \<Rightarrow> ANY))"

section \<open>backends/streamlit.py: collection buttons\<close>

definition is_add_button_disabled :: "Schema \<Rightarrow> int \<Rightarrow> bool" where
  "is_add_button_disabled property_schema current_length =
    (if truthy_bool (readOnly property_schema) then True
     else (case maxItems property_schema of
         Some m \<Rightarrow> (if current_length \<ge> m then True else False)
       | None \<Rightarrow> False))"

definition is_clear_button_disabled :: "Schema \<Rightarrow> bool" where
  "is_clear_button_disabled property_schema =
    (if truthy_bool (readOnly property_schema) then False else True)"

definition is_remove_button_disabled :: "Schema \<Rightarrow> int \<Rightarrow> bool" where
  "is_remove_button_disabled property_schema current_length =
    (if truthy_bool (readOnly property_schema) then True
     else (case minItems property_schema of
         Some m \<Rightarrow> (if current_length \<le> m then True else False)
       | None \<Rightarrow> False))"

section \<open>backends/streamlit.py: dispatch of \<open>_render_property\<close>\<close>

text \<open>
  The handler that the \<open>match\<close> statement of \<open>_render_property\<close> selects for an input
  type.  \<open>None\<close> is the fall-through after the last \<open>case\<close>: the warning followed by
  \<open>NotImplementedError\<close>.
\<close>

datatype renderer =
    RenderEnum | RenderDatetime | RenderBoolean | RenderNumber | RenderText | RenderList
  | RenderDict | RenderObject | RenderUnion | RenderNull | RenderAny

fun render_property_dispatch :: "InputType \<Rightarrow> renderer option" where
  "render_property_dispatch ENUM = Some RenderEnum"
| "render_property_dispatch DATE = Some RenderDatetime"
| "render_property_dispatch DATETIME = Some RenderDatetime"
| "render_property_dispatch TIME = Some RenderDatetime"
| "render_property_dispatch BOOLEAN = Some RenderBoolean"
| "render_property_dispatch INTEGER = Some RenderNumber"
| "render_property_dispatch FLOAT = Some RenderNumber"
| "render_property_dispatch TEXT = Some RenderText"
| "render_property_dispatch PASSWORD = Some RenderText"
| "render_property_dispatch EMAIL = Some RenderText"
| "render_property_dispatch UUID = Some RenderText"
| "render_property_dispatch URI = Some RenderText"
| "render_property_dispatch IPV4 = Some RenderText"
| "render_property_dispatch IPV6 = Some RenderText"
| "render_property_dispatch FILE_PATH = Some RenderText"
| "render_property_dispatch DIRECTORY_PATH = Some RenderText"
| "render_property_dispatch LIST = Some RenderList"
| "render_property_dispatch TUPLE = Some RenderList"
| "render_property_dispatch SET = Some RenderList"
| "render_property_dispatch DICT = Some RenderDict"
| "render_property_dispatch OBJECT = Some RenderObject"
| "render_property_dispatch UNION = Some RenderUnion"
| "render_property_dispatch DISCRIMINATED_UNION = Some RenderUnion"
| "render_property_dispatch NULL = Some RenderNull"
| "render_property_dispatch ANY = Some RenderAny"
| "render_property_dispatch DURATION = None"

section \<open>Example schemas\<close>

text \<open>\<open>Schema(type=DataType.STRING, format=fmt)\<close>.\<close>

definition string_schema :: "string option \<Rightarrow> Schema" where
  "string_schema fmt = Schema None (TypeOne DT_STRING) fmt None JNull JNull None None None None None None
     None None None None None None"

text \<open>\<open>Schema(readOnly=b)\<close>.\<close>

definition read_only_schema :: "bool \<Rightarrow> Schema" where
  "read_only_schema b = Schema None TypeNone None None JNull JNull None None None None None None
     None None None (Some b) None None"

text \<open>
  The schemas of the classifier's test table (\<open>tests/test_mapper.py\<close>):
  \<open>Schema(type=t)\<close>, \<open>Schema(type=ARRAY, items=..., uniqueItems=..., prefixItems=...)\<close>,
  \<open>Schema(enum=[...])\<close>, \<open>Schema(anyOf=...)\<close>, \<open>Schema(oneOf=...)\<close> and
  \<open>Schema(type=STRING, discriminator=..., oneOf=...)\<close>.
\<close>

definition typed_schema :: "DataType \<Rightarrow> Schema" where
  "typed_schema t = Schema None (TypeOne t) None None JNull JNull None None None None None None
     None None None None None None"

definition array_schema :: "Schema option \<Rightarrow> bool option \<Rightarrow> Schema list option \<Rightarrow> Schema" where
  "array_schema item_schema unique prefix_items =
     Schema None (TypeOne DT_ARRAY) None None JNull JNull None None prefix_items item_schema unique None
       None None None None None None"

definition enum_schema :: "json list \<Rightarrow> Schema" where
  "enum_schema values = Schema None TypeNone None (Some values) JNull JNull None None None None None None
     None None None None None None"

definition any_of_schema :: "Schema list \<Rightarrow> Schema" where
  "any_of_schema branches = Schema None TypeNone None None JNull JNull None None None None None None
     (Some branches) None None None None None"

definition one_of_schema :: "Schema list \<Rightarrow> Schema" where
  "one_of_schema branches = Schema None TypeNone None None JNull JNull None None None None None None
     None (Some branches) None None None None"

definition discriminated_schema :: "Discriminator \<Rightarrow> Schema list \<Rightarrow> Schema" where
  "discriminated_schema d branches =
     Schema None (TypeOne DT_STRING) None None JNull JNull None None None None None None
       None (Some branches) (Some d) None None None"

definition properties_schema :: "(string \<times> Schema) list \<Rightarrow> Schema" where
  "properties_schema ps = Schema None (TypeOne DT_OBJECT) None None JNull JNull None (Some ps) None None None None
     None None None None None None"

definition additional_schema :: "Schema \<Rightarrow> Schema" where
  "additional_schema value_schema =
     Schema None (TypeOne DT_OBJECT) None None JNull JNull None None None None None (Some (Inr value_schema))
       None None None None None None"

section \<open>Python exceptions\<close>

text \<open>
  The exceptions that the modelled functions raise.  \<open>KeyError k\<close> carries the missing
  key; for \<open>resolve_refs\<close> it stands for
  \<open>KeyError("Reference '<k>' not found in ref_map.")\<close>.  \<open>ValueError\<close> carries its message.
\<close>

datatype py_error =
    TypeError
  | KeyError string
  | AttributeError
  | RecursionError
  | StopIteration
  | ValueError string

section \<open>utils.py: case conversion\<close>

text \<open>
  A string is a list of code points below 256 (the type \<open>char\<close>), and the case tables are
  those of Python on these code points.  \<open>code_point\<close> is \<open>ord\<close>.
\<close>

definition code_point :: "char \<Rightarrow> nat" where
  "code_point c = of_char c"

text \<open>The character class \<open>[A-Z]\<close> of the regular expressions.\<close>

definition is_upper :: "char \<Rightarrow> bool" where
  "is_upper c = (0x41 \<le> code_point c \<and> code_point c \<le> 0x5A)"

text \<open>
  The capital letters, \<open>A\<close> to \<open>Z\<close> and U+00C0 to U+00DE without the multiplication sign
  U+00D7, have a small letter 32 code points higher; the small letters, \<open>a\<close> to \<open>z\<close> and
  U+00E0 to U+00FE without the division sign U+00F7, have a capital letter 32 code points
  lower.  \<open>char_lower\<close> is \<open>str.lower\<close> on one character.
\<close>

definition has_lowercase :: "char \<Rightarrow> bool" where
  "has_lowercase c =
     (0x41 \<le> code_point c \<and> code_point c \<le> 0x5A
      \<or> 0xC0 \<le> code_point c \<and> code_point c \<le> 0xDE \<and> code_point c \<noteq> 0xD7)"

definition has_uppercase :: "char \<Rightarrow> bool" where
  "has_uppercase c =
     (0x61 \<le> code_point c \<and> code_point c \<le> 0x7A
      \<or> 0xE0 \<le> code_point c \<and> code_point c \<le> 0xFE \<and> code_point c \<noteq> 0xF7)"

definition char_lower :: "char \<Rightarrow> char" where
  "char_lower c = (if has_lowercase c then char_of (code_point c + 0x20) else c)"

text \<open>
  The characters that \<open>str.title\<close> takes for cased: the capital and the small letters,
  the ordinal indicators U+00AA and U+00BA, the micro sign U+00B5, the sharp s U+00DF and
  U+00FF.
\<close>

definition is_cased :: "char \<Rightarrow> bool" where
  "is_cased c =
     (has_lowercase c \<or> has_uppercase c
      \<or> code_point c = 0xAA \<or> code_point c = 0xB5 \<or> code_point c = 0xBA
      \<or> code_point c = 0xDF \<or> code_point c = 0xFF)"

text \<open>
  The title-case mapping of \<open>str.title\<close> on one character: a small letter gives its
  capital, the sharp s gives \<open>Ss\<close>, every other character but two gives itself.  The
  title-case forms of the micro sign and of U+00FF are U+039C and U+0178, which are no
  code points below 256: there the result is \<open>None\<close>.
\<close>

definition char_title :: "char \<Rightarrow> string option" where
  "char_title c =
     (if code_point c = 0xDF then Some ''Ss''
      else if code_point c = 0xB5 \<or> code_point c = 0xFF then None
      else if has_uppercase c then Some [char_of (code_point c - 0x20)]
      else Some [c])"

text \<open>The characters that \<open>str.strip()\<close> removes.\<close>

definition is_space :: "char \<Rightarrow> bool" where
  "is_space c =
     (0x09 \<le> code_point c \<and> code_point c \<le> 0x0D
      \<or> 0x1C \<le> code_point c \<and> code_point c \<le> 0x20
      \<or> code_point c = 0x85 \<or> code_point c = 0xA0)"

text \<open>\<open>s.lower()\<close>.\<close>

definition str_lower :: "string \<Rightarrow> string" where
  "str_lower s = map char_lower s"

text \<open>\<open>s.replace(a, b)\<close> for one-character strings \<open>a\<close> and \<open>b\<close>.\<close>

definition str_replace :: "char \<Rightarrow> char \<Rightarrow> string \<Rightarrow> string" where
  "str_replace a b s = map (\<lambda>c. if c = a then b else c) s"

text \<open>\<open>s.strip()\<close> and \<open>s.strip("-")\<close>: the characters to strip are given by a predicate.\<close>

definition str_strip :: "(char \<Rightarrow> bool) \<Rightarrow> string \<Rightarrow> string" where
  "str_strip P s = rev (dropWhile P (rev (dropWhile P s)))"

text \<open>
  \<open>s.title()\<close>: a character that follows a cased character is lowercased, every other
  character is mapped to title case.  The result is \<open>None\<close> when it has a code point
  above 255.
\<close>

fun title_from :: "bool \<Rightarrow> string \<Rightarrow> string option" where
  "title_from previous_is_cased [] = Some []"
| "title_from previous_is_cased (c # cs) =
     (case (if previous_is_cased then Some [char_lower c] else char_title c) of
        None \<Rightarrow> None
      | Some mapped \<Rightarrow>
          (case title_from (is_cased c) cs of
             None \<Rightarrow> None
           | Some res \<Rightarrow> Some (mapped @ res)))"

definition str_title :: "string \<Rightarrow> string option" where
  "str_title s = title_from False s"

text \<open>
  \<open>re.sub(r"(?<!^)(?=[A-Z])", "_", s)\<close>: an underscore is inserted before every capital
  letter that is not the first character.
\<close>

definition mark_capitals :: "string \<Rightarrow> string" where
  "mark_capitals s = (case s of [] \<Rightarrow> []
     | c # cs \<Rightarrow> c # concat (map (\<lambda>x. if is_upper x then [CHR ''_'', x] else [x]) cs))"

text \<open>
  \<open>re.sub(r"[-_]+", "_", s)\<close>: every maximal run of hyphens and underscores becomes one
  underscore.  The flag says that the previous character belonged to a run.
\<close>

definition is_separator :: "char \<Rightarrow> bool" where
  "is_separator c = (c = CHR ''-'' \<or> c = CHR ''_'')"

fun squeeze_from :: "bool \<Rightarrow> string \<Rightarrow> string" where
  "squeeze_from in_run [] = []"
| "squeeze_from in_run (c # cs) =
     (if is_separator c then (if in_run then squeeze_from True cs else CHR ''_'' # squeeze_from True cs)
      else c # squeeze_from False cs)"

definition squeeze_separators :: "string \<Rightarrow> string" where
  "squeeze_separators s = squeeze_from False s"

text \<open>
  The first three statements of \<open>to_title_case\<close> and of \<open>to_kebab_case\<close> are the same
  (``convert to snake case'').
\<close>

definition to_snake_case :: "string \<Rightarrow> string" where
  "to_snake_case s = squeeze_separators (str_replace CHR '' '' CHR ''_'' (str_lower (mark_capitals s)))"

definition to_title_case :: "string \<Rightarrow> string option" where
  "to_title_case s = str_title (str_strip is_space (str_replace CHR ''_'' CHR '' '' (to_snake_case s)))"

definition to_kebab_case :: "string \<Rightarrow> string" where
  "to_kebab_case s =
     str_lower (str_strip (\<lambda>c. c = CHR ''-'') (str_replace CHR ''_'' CHR ''-'' (to_snake_case s)))"

section \<open>String splitting\<close>

text \<open>\<open>s.split(sep)\<close> for a one-character separator: never empty; \<open>"".split(".")\<close> is \<open>[""]\<close>.\<close>

fun split_on :: "char \<Rightarrow> string \<Rightarrow> string list" where
  "split_on sep [] = [[]]"
| "split_on sep (c # cs) =
     (if c = sep then [] # split_on sep cs
      else (case split_on sep cs of w # ws \<Rightarrow> (c # w) # ws | [] \<Rightarrow> [[c]]))"


section \<open>backends/streamlit.py: the key-path state store\<close>

definition KEY_SEPARATOR :: char where
  "KEY_SEPARATOR = CHR ''.''"

text \<open>
  The wizard state is a Python value (a dictionary at the top).  The loops of
  \<open>_store_value\<close> and \<open>_get_value\<close> walk the key parts and rebind the local variable
  \<open>state\<close> to the nested value; the nested dictionaries are mutated in place, so the
  model returns the updated value.  \<open>part not in state\<close>, \<open>state[part]\<close> and
  \<open>state[part] = ...\<close> raise \<open>TypeError\<close> when \<open>state\<close> is not a dictionary, except that
  \<open>part not in state\<close> is a membership test on a list and a substring test on a string.
  When a call raises, the model gives the exception only.
\<close>

fun store_parts :: "string list \<Rightarrow> json \<Rightarrow> json \<Rightarrow> py_error + json" where
  "store_parts [] v state = Inr state"
| "store_parts [part] v state =
     (case state of
        JDict d \<Rightarrow> Inr (JDict (AList.update part v d))
      | _ \<Rightarrow> Inl TypeError)"
| "store_parts (part # next_part # rest) v state =
     (case state of
        JDict d \<Rightarrow>
          (case store_parts (next_part # rest) v
                  (case map_of d part of None \<Rightarrow> JDict [] | Some sub \<Rightarrow> sub) of
             Inl e \<Rightarrow> Inl e
           | Inr sub' \<Rightarrow> Inr (JDict (AList.update part sub' d)))
      | _ \<Rightarrow> Inl TypeError)"

definition store_value :: "string \<Rightarrow> json \<Rightarrow> json \<Rightarrow> py_error + json" where
  "store_value key v state = store_parts (split_on KEY_SEPARATOR key) v state"



section \<open>utils.py: \<open>unpack_additional_properties\<close>\<close>

text \<open>
  \<open>unpack_entries\<close> is the outer loop over \<open>data.items()\<close> and \<open>unpack_inner\<close> the inner
  loop over \<open>v.items()\<close>; both carry the dictionary \<open>result\<close>.
\<close>

fun unpack_additional_properties :: "(string \<times> json) list \<Rightarrow> string \<Rightarrow> (string \<times> json) list"
  and unpack_entries :: "string \<Rightarrow> (string \<times> json) list \<Rightarrow> (string \<times> json) list \<Rightarrow> (string \<times> json) list"
  and unpack_inner :: "string \<Rightarrow> (string \<times> json) list \<Rightarrow> (string \<times> json) list \<Rightarrow> (string \<times> json) list"
where
  "unpack_additional_properties data additional_properties_key =
     unpack_entries additional_properties_key data []"
| "unpack_entries key [] result = result"
| "unpack_entries key ((k, JDict d) # rest) result =
     (if k = key then unpack_entries key rest (unpack_inner key d result)
      else unpack_entries key rest (AList.update k (JDict (unpack_additional_properties d key)) result))"
| "unpack_entries key ((k, v) # rest) result = unpack_entries key rest (AList.update k v result)"
| "unpack_inner key [] result = result"
| "unpack_inner key ((add_k, JDict d) # rest) result =
     unpack_inner key rest (AList.update add_k (JDict (unpack_additional_properties d key)) result)"
| "unpack_inner key ((add_k, add_v) # rest) result =
     unpack_inner key rest (AList.update add_k add_v result)"

section \<open>The state store as the specification describes it\<close>




section \<open>Auxiliary notions for the proofs\<close>






section \<open>Verified properties\<close>

subsection \<open>The classifier \<open>property_to_input_type\<close>\<close>



lemma property_to_input_type_cases:
  "property_to_input_type p \<in> {TEXT, EMAIL, PASSWORD, URI, UUID, IPV4, IPV6, INTEGER, FLOAT, BOOLEAN, ENUM,
     LIST, TUPLE, SET, DICT, OBJECT, UNION, DISCRIMINATED_UNION, ANY, NULL}"
  by (simp add: property_to_input_type_def split: schema_type.split DataType.split)

lemma typed_schema_kind:
  "property_to_input_type (Schema None (TypeOne t) fmt None JNull JNull None None None None None None
     None None None None None None) =
   (case t of DT_STRING \<Rightarrow> (if fmt = Some ''email'' then EMAIL
            else if fmt = Some ''password'' then PASSWORD
            else if fmt = Some ''uri'' then URI
            else if fmt = Some ''uuid'' then UUID
            else if fmt = Some ''ipv4'' then IPV4
            else if fmt = Some ''ipv6'' then IPV6
            else TEXT)
     | DT_NUMBER \<Rightarrow> FLOAT | DT_INTEGER \<Rightarrow> INTEGER | DT_BOOLEAN \<Rightarrow> BOOLEAN | DT_ARRAY \<Rightarrow> LIST
     | DT_OBJECT \<Rightarrow> ANY | DT_NULL \<Rightarrow> NULL)"
  by (simp add: property_to_input_type_def truthy_list_def truthy_bool_def truthy_additional_def
      split: DataType.split)

lemma property_to_input_type_attains:
  "{TEXT, EMAIL, PASSWORD, URI, UUID, IPV4, IPV6, INTEGER, FLOAT, BOOLEAN, ENUM,
     LIST, TUPLE, SET, DICT, OBJECT, UNION, DISCRIMINATED_UNION, ANY, NULL} \<subseteq> range property_to_input_type"
proof -
  let ?S = "\<lambda>t f. Schema None (TypeOne t) f None JNull JNull None None None None None None
     None None None None None None"
  have "TEXT \<in> range property_to_input_type"
    by (rule range_eqI [where x = "?S DT_STRING None"]) (simp add: typed_schema_kind)
  moreover have "EMAIL \<in> range property_to_input_type"
    by (rule range_eqI [where x = "?S DT_STRING (Some ''email'')"]) (simp add: typed_schema_kind)
  moreover have "PASSWORD \<in> range property_to_input_type"
    by (rule range_eqI [where x = "?S DT_STRING (Some ''password'')"]) (simp add: typed_schema_kind)
  moreover have "URI \<in> range property_to_input_type"
    by (rule range_eqI [where x = "?S DT_STRING (Some ''uri'')"]) (simp add: typed_schema_kind)
  moreover have "UUID \<in> range property_to_input_type"
    by (rule range_eqI [where x = "?S DT_STRING (Some ''uuid'')"]) (simp add: typed_schema_kind)
  moreover have "IPV4 \<in> range property_to_input_type"
    by (rule range_eqI [where x = "?S DT_STRING (Some ''ipv4'')"]) (simp add: typed_schema_kind)
  moreover have "IPV6 \<in> range property_to_input_type"
    by (rule range_eqI [where x = "?S DT_STRING (Some ''ipv6'')"]) (simp add: typed_schema_kind)
  moreover have "INTEGER \<in> range property_to_input_type"
    by (rule range_eqI [where x = "?S DT_INTEGER None"]) (simp add: typed_schema_kind)
  moreover have "FLOAT \<in> range property_to_input_type"
    by (rule range_eqI [where x = "?S DT_NUMBER None"]) (simp add: typed_schema_kind)
  moreover have "BOOLEAN \<in> range property_to_input_type"
    by (rule range_eqI [where x = "?S DT_BOOLEAN None"]) (simp add: typed_schema_kind)
  moreover have "LIST \<in> range property_to_input_type"
    by (rule range_eqI [where x = "?S DT_ARRAY None"]) (simp add: typed_schema_kind)
  moreover have "ANY \<in> range property_to_input_type"
    by (rule range_eqI [where x = "?S DT_OBJECT None"]) (simp add: typed_schema_kind)
  moreover have "NULL \<in> range property_to_input_type"
    by (rule range_eqI [where x = "?S DT_NULL None"]) (simp add: typed_schema_kind)
  moreover have "ENUM \<in> range property_to_input_type"
    by (rule range_eqI [where x = "Schema None TypeNone None (Some [JStr ''value1'', JStr ''value2'']) JNull JNull None None None None None None
     None None None None None None"]) (simp add: property_to_input_type_def truthy_list_def)
  moreover have "TUPLE \<in> range property_to_input_type"
    by (rule range_eqI [where x = "Schema None (TypeOne DT_ARRAY) None None JNull JNull None None
     (Some [?S DT_STRING None]) None None None None None None None None None"]) (simp add: property_to_input_type_def truthy_list_def)
  moreover have "SET \<in> range property_to_input_type"
    by (rule range_eqI [where x = "Schema None (TypeOne DT_ARRAY) None None JNull JNull None None
     None (Some (?S DT_STRING None)) (Some True) None None None None None None None"]) (simp add: property_to_input_type_def truthy_list_def truthy_bool_def)
  moreover have "DICT \<in> range property_to_input_type"
    by (rule range_eqI [where x = "Schema None (TypeOne DT_OBJECT) None None JNull JNull None None
     None None None (Some (Inr (?S DT_STRING None))) None None None None None None"]) (simp add: property_to_input_type_def truthy_list_def truthy_additional_def)
  moreover have "OBJECT \<in> range property_to_input_type"
    by (rule range_eqI [where x = "Schema None (TypeOne DT_OBJECT) None None JNull JNull None
     (Some [(''key'', ?S DT_STRING None)]) None None None None None None None None None None"]) (simp add: property_to_input_type_def truthy_list_def)
  moreover have "UNION \<in> range property_to_input_type"
    by (rule range_eqI [where x = "Schema None TypeNone None None JNull JNull None None
     None None None None (Some [?S DT_STRING None, ?S DT_INTEGER None]) None None None None None"]) (simp add: property_to_input_type_def truthy_list_def)
  moreover have "DISCRIMINATED_UNION \<in> range property_to_input_type"
    by (rule range_eqI [where x = "Schema None (TypeOne DT_STRING) None None JNull JNull None None
     None None None None None (Some [?S DT_OBJECT None, ?S DT_OBJECT None]) (Some (Discriminator ''type'' None)) None None None"]) (simp add: property_to_input_type_def truthy_list_def)
  ultimately show ?thesis
    by (simp only: insert_subset empty_subsetI simp_thms)
qed


lemma property_to_input_type_range:
  "range property_to_input_type =
     {TEXT, EMAIL, PASSWORD, URI, UUID, IPV4, IPV6, INTEGER, FLOAT, BOOLEAN, ENUM,
      LIST, TUPLE, SET, DICT, OBJECT, UNION, DISCRIMINATED_UNION, ANY, NULL}"
proof
  show "range property_to_input_type \<subseteq>
     {TEXT, EMAIL, PASSWORD, URI, UUID, IPV4, IPV6, INTEGER, FLOAT, BOOLEAN, ENUM,
      LIST, TUPLE, SET, DICT, OBJECT, UNION, DISCRIMINATED_UNION, ANY, NULL}"
    using property_to_input_type_cases by blast
next
  show "{TEXT, EMAIL, PASSWORD, URI, UUID, IPV4, IPV6, INTEGER, FLOAT, BOOLEAN, ENUM,
      LIST, TUPLE, SET, DICT, OBJECT, UNION, DISCRIMINATED_UNION, ANY, NULL}
     \<subseteq> range property_to_input_type"
    by (rule property_to_input_type_attains)
qed

lemma string_node_kind:
  assumes "\<not> truthy_list (enum prop)" and "discriminator prop = None"
    and "\<not> truthy_list (anyOf prop)" and "\<not> truthy_list (oneOf prop)"
    and "type prop = TypeOne DT_STRING"
  shows "property_to_input_type prop =
     (if schema_format prop = Some ''email'' then EMAIL
      else if schema_format prop = Some ''password'' then PASSWORD
      else if schema_format prop = Some ''uri'' then URI
      else if schema_format prop = Some ''uuid'' then UUID
      else if schema_format prop = Some ''ipv4'' then IPV4
      else if schema_format prop = Some ''ipv6'' then IPV6
      else TEXT)"
  using assms by (simp add: property_to_input_type_def)

text \<open>
  Claim C1, as stated, fails: a string node whose format is \<open>file_path\<close> is classified as
  \<open>text\<close>, not as \<open>file_path\<close> (the classifier has no case for it).
\<close>

theorem C1_file_path_is_text:
  "property_to_input_type (string_schema (Some ''file_path'')) = TEXT
   \<and> property_to_input_type (string_schema (Some ''file_path'')) \<noteq> FILE_PATH"
  by (simp add: string_schema_def typed_schema_kind)

lemma classifier_precedence:
  "(truthy_list (enum prop) \<longrightarrow> property_to_input_type prop = ENUM)
   \<and> (\<not> truthy_list (enum prop) \<and> discriminator prop \<noteq> None \<longrightarrow>
        property_to_input_type prop = DISCRIMINATED_UNION)
   \<and> (\<not> truthy_list (enum prop) \<and> discriminator prop = None
        \<and> (truthy_list (anyOf prop) \<or> truthy_list (oneOf prop)) \<longrightarrow>
        property_to_input_type prop = UNION)"
  by (simp add: property_to_input_type_def)

lemma classifier_by_type:
  assumes "\<not> truthy_list (enum prop)" and "discriminator prop = None"
    and "\<not> truthy_list (anyOf prop)" and "\<not> truthy_list (oneOf prop)"
  shows "(type prop = TypeOne DT_NUMBER \<longrightarrow> property_to_input_type prop = FLOAT)
     \<and> (type prop = TypeOne DT_INTEGER \<longrightarrow> property_to_input_type prop = INTEGER)
     \<and> (type prop = TypeOne DT_BOOLEAN \<longrightarrow> property_to_input_type prop = BOOLEAN)
     \<and> (type prop = TypeOne DT_NULL \<longrightarrow> property_to_input_type prop = NULL)
     \<and> ((\<forall>t. type prop \<noteq> TypeOne t) \<longrightarrow> property_to_input_type prop = ANY)"
  using assms by (cases "type prop") (simp_all add: property_to_input_type_def)

lemma classifier_array:
  assumes "\<not> truthy_list (enum prop)" and "discriminator prop = None"
    and "\<not> truthy_list (anyOf prop)" and "\<not> truthy_list (oneOf prop)"
    and "type prop = TypeOne DT_ARRAY"
  shows "(truthy_list (prefixItems prop) \<longrightarrow> property_to_input_type prop = TUPLE)
     \<and> (\<not> truthy_list (prefixItems prop) \<and> truthy_bool (uniqueItems prop) \<longrightarrow>
          property_to_input_type prop = SET)
     \<and> (\<not> truthy_list (prefixItems prop) \<and> \<not> truthy_bool (uniqueItems prop) \<longrightarrow>
          property_to_input_type prop = LIST)"
  using assms by (simp add: property_to_input_type_def)

lemma classifier_object:
  assumes "\<not> truthy_list (enum prop)" and "discriminator prop = None"
    and "\<not> truthy_list (anyOf prop)" and "\<not> truthy_list (oneOf prop)"
    and "type prop = TypeOne DT_OBJECT"
  shows "(truthy_list (properties prop) \<longrightarrow> property_to_input_type prop = OBJECT)
     \<and> (\<not> truthy_list (properties prop) \<and> truthy_additional (additionalProperties prop) \<longrightarrow>
          property_to_input_type prop = DICT)
     \<and> (\<not> truthy_list (properties prop) \<and> \<not> truthy_additional (additionalProperties prop) \<longrightarrow>
          property_to_input_type prop = ANY)"
  using assms by (simp add: property_to_input_type_def)

lemma classifier_table:
  "property_to_input_type (string_schema (Some ''email'')) = EMAIL
   \<and> property_to_input_type (string_schema (Some ''password'')) = PASSWORD
   \<and> property_to_input_type (string_schema (Some ''uri'')) = URI
   \<and> property_to_input_type (string_schema (Some ''uuid'')) = UUID
   \<and> property_to_input_type (string_schema (Some ''ipv4'')) = IPV4
   \<and> property_to_input_type (string_schema (Some ''ipv6'')) = IPV6
   \<and> property_to_input_type (typed_schema DT_STRING) = TEXT
   \<and> property_to_input_type (typed_schema DT_NUMBER) = FLOAT
   \<and> property_to_input_type (typed_schema DT_INTEGER) = INTEGER
   \<and> property_to_input_type (typed_schema DT_BOOLEAN) = BOOLEAN
   \<and> property_to_input_type (array_schema (Some (typed_schema DT_STRING)) None None) = LIST
   \<and> property_to_input_type (array_schema (Some (typed_schema DT_STRING)) (Some True) None) = SET
   \<and> property_to_input_type (array_schema None None (Some [typed_schema DT_STRING])) = TUPLE
   \<and> property_to_input_type (properties_schema [(''key'', typed_schema DT_STRING)]) = OBJECT
   \<and> property_to_input_type (additional_schema (typed_schema DT_STRING)) = DICT
   \<and> property_to_input_type (typed_schema DT_OBJECT) = ANY
   \<and> property_to_input_type (typed_schema DT_NULL) = NULL
   \<and> property_to_input_type (enum_schema [JStr ''value1'', JStr ''value2'']) = ENUM
   \<and> property_to_input_type
        (discriminated_schema
           (Discriminator ''type'' (Some [(''type1'', ''Type1Schema''), (''type2'', ''Type2Schema'')]))
           [typed_schema DT_OBJECT, typed_schema DT_OBJECT]) = DISCRIMINATED_UNION
   \<and> property_to_input_type (any_of_schema [typed_schema DT_STRING, typed_schema DT_INTEGER]) = UNION
   \<and> property_to_input_type (one_of_schema [typed_schema DT_STRING, typed_schema DT_INTEGER]) = UNION
   \<and> property_to_input_type empty_schema = ANY"
  by (simp add: property_to_input_type_def string_schema_def typed_schema_def array_schema_def
      enum_schema_def any_of_schema_def one_of_schema_def discriminated_schema_def properties_schema_def
      additional_schema_def empty_schema_def truthy_list_def truthy_bool_def truthy_additional_def)

lemma classifier_string:
  assumes "\<not> truthy_list (enum prop)" and "discriminator prop = None"
    and "\<not> truthy_list (anyOf prop)" and "\<not> truthy_list (oneOf prop)"
    and "type prop = TypeOne DT_STRING"
  shows "(schema_format prop = Some ''email'' \<longrightarrow> property_to_input_type prop = EMAIL)
     \<and> (schema_format prop = Some ''password'' \<longrightarrow> property_to_input_type prop = PASSWORD)
     \<and> (schema_format prop = Some ''uri'' \<longrightarrow> property_to_input_type prop = URI)
     \<and> (schema_format prop = Some ''uuid'' \<longrightarrow> property_to_input_type prop = UUID)
     \<and> (schema_format prop = Some ''ipv4'' \<longrightarrow> property_to_input_type prop = IPV4)
     \<and> (schema_format prop = Some ''ipv6'' \<longrightarrow> property_to_input_type prop = IPV6)
     \<and> (schema_format prop \<notin> {Some ''email'', Some ''password'', Some ''uri'', Some ''uuid'',
            Some ''ipv4'', Some ''ipv6''} \<longrightarrow> property_to_input_type prop = TEXT)"
  using assms by (simp add: property_to_input_type_def)

lemma classifier_rules:
  "(truthy_list (enum prop) \<longrightarrow> property_to_input_type prop = ENUM)
    \<and> (\<not> truthy_list (enum prop) \<and> discriminator prop \<noteq> None \<longrightarrow>
         property_to_input_type prop = DISCRIMINATED_UNION)
    \<and> (\<not> truthy_list (enum prop) \<and> discriminator prop = None
         \<and> (truthy_list (anyOf prop) \<or> truthy_list (oneOf prop)) \<longrightarrow>
         property_to_input_type prop = UNION)
    \<and> (\<not> truthy_list (enum prop) \<and> discriminator prop = None
         \<and> \<not> truthy_list (anyOf prop) \<and> \<not> truthy_list (oneOf prop) \<longrightarrow>
         (type prop = TypeOne DT_STRING \<longrightarrow>
            (schema_format prop = Some ''email'' \<longrightarrow> property_to_input_type prop = EMAIL)
          \<and> (schema_format prop = Some ''password'' \<longrightarrow> property_to_input_type prop = PASSWORD)
          \<and> (schema_format prop = Some ''uri'' \<longrightarrow> property_to_input_type prop = URI)
          \<and> (schema_format prop = Some ''uuid'' \<longrightarrow> property_to_input_type prop = UUID)
          \<and> (schema_format prop = Some ''ipv4'' \<longrightarrow> property_to_input_type prop = IPV4)
          \<and> (schema_format prop = Some ''ipv6'' \<longrightarrow> property_to_input_type prop = IPV6)
          \<and> (schema_format prop \<notin> {Some ''email'', Some ''password'', Some ''uri'', Some ''uuid'',
                 Some ''ipv4'', Some ''ipv6''} \<longrightarrow> property_to_input_type prop = TEXT))
       \<and> (type prop = TypeOne DT_NUMBER \<longrightarrow> property_to_input_type prop = FLOAT)
       \<and> (type prop = TypeOne DT_INTEGER \<longrightarrow> property_to_input_type prop = INTEGER)
       \<and> (type prop = TypeOne DT_BOOLEAN \<longrightarrow> property_to_input_type prop = BOOLEAN)
       \<and> (type prop = TypeOne DT_NULL \<longrightarrow> property_to_input_type prop = NULL)
       \<and> ((\<forall>t. type prop \<noteq> TypeOne t) \<longrightarrow> property_to_input_type prop = ANY)
       \<and> (type prop = TypeOne DT_ARRAY \<longrightarrow>
            (truthy_list (prefixItems prop) \<longrightarrow> property_to_input_type prop = TUPLE)
          \<and> (\<not> truthy_list (prefixItems prop) \<and> truthy_bool (uniqueItems prop) \<longrightarrow>
               property_to_input_type prop = SET)
          \<and> (\<not> truthy_list (prefixItems prop) \<and> \<not> truthy_bool (uniqueItems prop) \<longrightarrow>
               property_to_input_type prop = LIST))
       \<and> (type prop = TypeOne DT_OBJECT \<longrightarrow>
            (truthy_list (properties prop) \<longrightarrow> property_to_input_type prop = OBJECT)
          \<and> (\<not> truthy_list (properties prop) \<and> truthy_additional (additionalProperties prop) \<longrightarrow>
               property_to_input_type prop = DICT)
          \<and> (\<not> truthy_list (properties prop) \<and> \<not> truthy_additional (additionalProperties prop) \<longrightarrow>
               property_to_input_type prop = ANY)))"
proof -
  show ?thesis
    apply (intro conjI impI)
    using classifier_precedence [of "prop"] apply blast
    using classifier_precedence [of "prop"] apply blast
    using classifier_precedence [of "prop"] apply blast
    using classifier_string [of "prop"] apply blast
    using classifier_string [of "prop"] apply blast
    using classifier_string [of "prop"] apply blast
    using classifier_string [of "prop"] apply blast
    using classifier_string [of "prop"] apply blast
    using classifier_string [of "prop"] apply blast
    using classifier_string [of "prop"] apply blast
    using classifier_by_type [of "prop"] apply blast
    using classifier_by_type [of "prop"] apply blast
    using classifier_by_type [of "prop"] apply blast
    using classifier_by_type [of "prop"] apply blast
    using classifier_by_type [of "prop"] apply blast
    using classifier_array [of "prop"] apply blast
    using classifier_array [of "prop"] apply blast
    using classifier_array [of "prop"] apply blast
    using classifier_object [of "prop"] apply blast
    using classifier_object [of "prop"] apply blast
    using classifier_object [of "prop"] apply blast
    done
qed

text \<open>
  Claim C1, amended.  \<open>property_to_input_type\<close> classifies by the precedence enum,
  discriminator, anyOf/oneOf, then by the declared type: a string-typed node without
  enum, discriminator or anyOf/oneOf whose format is email, password, uri, uuid, ipv4 or
  ipv6 is classified as the like-named kind, and every other format (file_path and
  directory_path included) or an absent format yields text; number yields float, integer
  integer, boolean boolean, null null; an array yields tuple with prefixItems, else set
  with uniqueItems, else list; an object yields object with properties, else dict with
  additionalProperties, else any; an absent type or a list of types yields any.  Each of
  the twenty kinds text, email, password, uri, uuid, ipv4, ipv6, integer, float, boolean,
  enum, list, tuple, set, dict, object, union, discriminated_union, any and null is
  returned for the schema shaped for it in the test table of the classifier, and these
  twenty are all the kinds returned: file_path, directory_path, date, time, datetime and
  duration are returned for no schema.
\<close>

theorem C1_classifier_kinds:
  "(\<forall>prop.
      (truthy_list (enum prop) \<longrightarrow> property_to_input_type prop = ENUM)
    \<and> (\<not> truthy_list (enum prop) \<and> discriminator prop \<noteq> None \<longrightarrow>
         property_to_input_type prop = DISCRIMINATED_UNION)
    \<and> (\<not> truthy_list (enum prop) \<and> discriminator prop = None
         \<and> (truthy_list (anyOf prop) \<or> truthy_list (oneOf prop)) \<longrightarrow>
         property_to_input_type prop = UNION)
    \<and> (\<not> truthy_list (enum prop) \<and> discriminator prop = None
         \<and> \<not> truthy_list (anyOf prop) \<and> \<not> truthy_list (oneOf prop) \<longrightarrow>
         (type prop = TypeOne DT_STRING \<longrightarrow>
            (schema_format prop = Some ''email'' \<longrightarrow> property_to_input_type prop = EMAIL)
          \<and> (schema_format prop = Some ''password'' \<longrightarrow> property_to_input_type prop = PASSWORD)
          \<and> (schema_format prop = Some ''uri'' \<longrightarrow> property_to_input_type prop = URI)
          \<and> (schema_format prop = Some ''uuid'' \<longrightarrow> property_to_input_type prop = UUID)
          \<and> (schema_format prop = Some ''ipv4'' \<longrightarrow> property_to_input_type prop = IPV4)
          \<and> (schema_format prop = Some ''ipv6'' \<longrightarrow> property_to_input_type prop = IPV6)
          \<and> (schema_format prop \<notin> {Some ''email'', Some ''password'', Some ''uri'', Some ''uuid'',
                 Some ''ipv4'', Some ''ipv6''} \<longrightarrow> property_to_input_type prop = TEXT))
       \<and> (type prop = TypeOne DT_NUMBER \<longrightarrow> property_to_input_type prop = FLOAT)
       \<and> (type prop = TypeOne DT_INTEGER \<longrightarrow> property_to_input_type prop = INTEGER)
       \<and> (type prop = TypeOne DT_BOOLEAN \<longrightarrow> property_to_input_type prop = BOOLEAN)
       \<and> (type prop = TypeOne DT_NULL \<longrightarrow> property_to_input_type prop = NULL)
       \<and> ((\<forall>t. type prop \<noteq> TypeOne t) \<longrightarrow> property_to_input_type prop = ANY)
       \<and> (type prop = TypeOne DT_ARRAY \<longrightarrow>
            (truthy_list (prefixItems prop) \<longrightarrow> property_to_input_type prop = TUPLE)
          \<and> (\<not> truthy_list (prefixItems prop) \<and> truthy_bool (uniqueItems prop) \<longrightarrow>
               property_to_input_type prop = SET)
          \<and> (\<not> truthy_list (prefixItems prop) \<and> \<not> truthy_bool (uniqueItems prop) \<longrightarrow>
               property_to_input_type prop = LIST))
       \<and> (type prop = TypeOne DT_OBJECT \<longrightarrow>
            (truthy_list (properties prop) \<longrightarrow> property_to_input_type prop = OBJECT)
          \<and> (\<not> truthy_list (properties prop) \<and> truthy_additional (additionalProperties prop) \<longrightarrow>
               property_to_input_type prop = DICT)
          \<and> (\<not> truthy_list (properties prop) \<and> \<not> truthy_additional (additionalProperties prop) \<longrightarrow>
               property_to_input_type prop = ANY))))
   \<and> property_to_input_type (string_schema (Some ''email'')) = EMAIL
   \<and> property_to_input_type (string_schema (Some ''password'')) = PASSWORD
   \<and> property_to_input_type (string_schema (Some ''uri'')) = URI
   \<and> property_to_input_type (string_schema (Some ''uuid'')) = UUID
   \<and> property_to_input_type (string_schema (Some ''ipv4'')) = IPV4
   \<and> property_to_input_type (string_schema (Some ''ipv6'')) = IPV6
   \<and> property_to_input_type (typed_schema DT_STRING) = TEXT
   \<and> property_to_input_type (typed_schema DT_NUMBER) = FLOAT
   \<and> property_to_input_type (typed_schema DT_INTEGER) = INTEGER
   \<and> property_to_input_type (typed_schema DT_BOOLEAN) = BOOLEAN
   \<and> property_to_input_type (array_schema (Some (typed_schema DT_STRING)) None None) = LIST
   \<and> property_to_input_type (array_schema (Some (typed_schema DT_STRING)) (Some True) None) = SET
   \<and> property_to_input_type (array_schema None None (Some [typed_schema DT_STRING])) = TUPLE
   \<and> property_to_input_type (properties_schema [(''key'', typed_schema DT_STRING)]) = OBJECT
   \<and> property_to_input_type (additional_schema (typed_schema DT_STRING)) = DICT
   \<and> property_to_input_type (typed_schema DT_OBJECT) = ANY
   \<and> property_to_input_type (typed_schema DT_NULL) = NULL
   \<and> property_to_input_type (enum_schema [JStr ''value1'', JStr ''value2'']) = ENUM
   \<and> property_to_input_type
        (discriminated_schema
           (Discriminator ''type'' (Some [(''type1'', ''Type1Schema''), (''type2'', ''Type2Schema'')]))
           [typed_schema DT_OBJECT, typed_schema DT_OBJECT]) = DISCRIMINATED_UNION
   \<and> property_to_input_type (any_of_schema [typed_schema DT_STRING, typed_schema DT_INTEGER]) = UNION
   \<and> property_to_input_type (one_of_schema [typed_schema DT_STRING, typed_schema DT_INTEGER]) = UNION
   \<and> property_to_input_type empty_schema = ANY
   \<and> range property_to_input_type =
       {TEXT, EMAIL, PASSWORD, URI, UUID, IPV4, IPV6, INTEGER, FLOAT, BOOLEAN, ENUM,
        LIST, TUPLE, SET, DICT, OBJECT, UNION, DISCRIMINATED_UNION, ANY, NULL}"
proof (rule conjI)
  show "\<forall>prop.
      (truthy_list (enum prop) \<longrightarrow> property_to_input_type prop = ENUM)
    \<and> (\<not> truthy_list (enum prop) \<and> discriminator prop \<noteq> None \<longrightarrow>
         property_to_input_type prop = DISCRIMINATED_UNION)
    \<and> (\<not> truthy_list (enum prop) \<and> discriminator prop = None
         \<and> (truthy_list (anyOf prop) \<or> truthy_list (oneOf prop)) \<longrightarrow>
         property_to_input_type prop = UNION)
    \<and> (\<not> truthy_list (enum prop) \<and> discriminator prop = None
         \<and> \<not> truthy_list (anyOf prop) \<and> \<not> truthy_list (oneOf prop) \<longrightarrow>
         (type prop = TypeOne DT_STRING \<longrightarrow>
            (schema_format prop = Some ''email'' \<longrightarrow> property_to_input_type prop = EMAIL)
          \<and> (schema_format prop = Some ''password'' \<longrightarrow> property_to_input_type prop = PASSWORD)
          \<and> (schema_format prop = Some ''uri'' \<longrightarrow> property_to_input_type prop = URI)
          \<and> (schema_format prop = Some ''uuid'' \<longrightarrow> property_to_input_type prop = UUID)
          \<and> (schema_format prop = Some ''ipv4'' \<longrightarrow> property_to_input_type prop = IPV4)
          \<and> (schema_format prop = Some ''ipv6'' \<longrightarrow> property_to_input_type prop = IPV6)
          \<and> (schema_format prop \<notin> {Some ''email'', Some ''password'', Some ''uri'', Some ''uuid'',
                 Some ''ipv4'', Some ''ipv6''} \<longrightarrow> property_to_input_type prop = TEXT))
       \<and> (type prop = TypeOne DT_NUMBER \<longrightarrow> property_to_input_type prop = FLOAT)
       \<and> (type prop = TypeOne DT_INTEGER \<longrightarrow> property_to_input_type prop = INTEGER)
       \<and> (type prop = TypeOne DT_BOOLEAN \<longrightarrow> property_to_input_type prop = BOOLEAN)
       \<and> (type prop = TypeOne DT_NULL \<longrightarrow> property_to_input_type prop = NULL)
       \<and> ((\<forall>t. type prop \<noteq> TypeOne t) \<longrightarrow> property_to_input_type prop = ANY)
       \<and> (type prop = TypeOne DT_ARRAY \<longrightarrow>
            (truthy_list (prefixItems prop) \<longrightarrow> property_to_input_type prop = TUPLE)
          \<and> (\<not> truthy_list (prefixItems prop) \<and> truthy_bool (uniqueItems prop) \<longrightarrow>
               property_to_input_type prop = SET)
          \<and> (\<not> truthy_list (prefixItems prop) \<and> \<not> truthy_bool (uniqueItems prop) \<longrightarrow>
               property_to_input_type prop = LIST))
       \<and> (type prop = TypeOne DT_OBJECT \<longrightarrow>
            (truthy_list (properties prop) \<longrightarrow> property_to_input_type prop = OBJECT)
          \<and> (\<not> truthy_list (properties prop) \<and> truthy_additional (additionalProperties prop) \<longrightarrow>
               property_to_input_type prop = DICT)
          \<and> (\<not> truthy_list (properties prop) \<and> \<not> truthy_additional (additionalProperties prop) \<longrightarrow>
               property_to_input_type prop = ANY)))"
    by (rule allI) (rule classifier_rules)
next
  show "property_to_input_type (string_schema (Some ''email'')) = EMAIL
   \<and> property_to_input_type (string_schema (Some ''password'')) = PASSWORD
   \<and> property_to_input_type (string_schema (Some ''uri'')) = URI
   \<and> property_to_input_type (string_schema (Some ''uuid'')) = UUID
   \<and> property_to_input_type (string_schema (Some ''ipv4'')) = IPV4
   \<and> property_to_input_type (string_schema (Some ''ipv6'')) = IPV6
   \<and> property_to_input_type (typed_schema DT_STRING) = TEXT
   \<and> property_to_input_type (typed_schema DT_NUMBER) = FLOAT
   \<and> property_to_input_type (typed_schema DT_INTEGER) = INTEGER
   \<and> property_to_input_type (typed_schema DT_BOOLEAN) = BOOLEAN
   \<and> property_to_input_type (array_schema (Some (typed_schema DT_STRING)) None None) = LIST
   \<and> property_to_input_type (array_schema (Some (typed_schema DT_STRING)) (Some True) None) = SET
   \<and> property_to_input_type (array_schema None None (Some [typed_schema DT_STRING])) = TUPLE
   \<and> property_to_input_type (properties_schema [(''key'', typed_schema DT_STRING)]) = OBJECT
   \<and> property_to_input_type (additional_schema (typed_schema DT_STRING)) = DICT
   \<and> property_to_input_type (typed_schema DT_OBJECT) = ANY
   \<and> property_to_input_type (typed_schema DT_NULL) = NULL
   \<and> property_to_input_type (enum_schema [JStr ''value1'', JStr ''value2'']) = ENUM
   \<and> property_to_input_type
        (discriminated_schema
           (Discriminator ''type'' (Some [(''type1'', ''Type1Schema''), (''type2'', ''Type2Schema'')]))
           [typed_schema DT_OBJECT, typed_schema DT_OBJECT]) = DISCRIMINATED_UNION
   \<and> property_to_input_type (any_of_schema [typed_schema DT_STRING, typed_schema DT_INTEGER]) = UNION
   \<and> property_to_input_type (one_of_schema [typed_schema DT_STRING, typed_schema DT_INTEGER]) = UNION
   \<and> property_to_input_type empty_schema = ANY
   \<and> range property_to_input_type =
       {TEXT, EMAIL, PASSWORD, URI, UUID, IPV4, IPV6, INTEGER, FLOAT, BOOLEAN, ENUM,
        LIST, TUPLE, SET, DICT, OBJECT, UNION, DISCRIMINATED_UNION, ANY, NULL}"
    by (simp only: classifier_table property_to_input_type_range simp_thms)
qed

theorem C1_classifier_kinds_witness:
  "property_to_input_type (array_schema (Some (typed_schema DT_STRING)) (Some True) None) = SET
   \<and> property_to_input_type (string_schema (Some ''directory_path'')) = TEXT
   \<and> property_to_input_type (typed_schema DT_NUMBER) = FLOAT"
proof -
  have plain: "\<not> truthy_list (enum s) \<and> discriminator s = None
         \<and> \<not> truthy_list (anyOf s) \<and> \<not> truthy_list (oneOf s)"
    if "s \<in> {array_schema (Some (typed_schema DT_STRING)) (Some True) None,
              string_schema (Some ''directory_path''), typed_schema DT_NUMBER}" for s
    using that by (auto simp add: array_schema_def string_schema_def typed_schema_def truthy_list_def)
  note r = C1_classifier_kinds [THEN conjunct1, rule_format, THEN conjunct2, THEN conjunct2, THEN conjunct2, rule_format]
  have "property_to_input_type (array_schema (Some (typed_schema DT_STRING)) (Some True) None) = SET"
    using r [OF plain, of "array_schema (Some (typed_schema DT_STRING)) (Some True) None"]
    by (simp add: array_schema_def truthy_list_def truthy_bool_def)
  moreover have "property_to_input_type (string_schema (Some ''directory_path'')) = TEXT"
    using r [OF plain, of "string_schema (Some ''directory_path'')"]
    by (simp add: string_schema_def)
  moreover have "property_to_input_type (typed_schema DT_NUMBER) = FLOAT"
    using r [OF plain, of "typed_schema DT_NUMBER"]
    by (simp add: typed_schema_def)
  ultimately show ?thesis by simp
qed

text \<open>
  Claim C10.  \<open>property_to_input_type\<close> never returns \<open>DURATION\<close>; \<open>DURATION\<close> is the only
  kind for which the dispatch of \<open>_render_property\<close> has no handler; hence the dispatch
  finds a handler for the kind of every schema, and the final warning and
  \<open>NotImplementedError\<close> are not reached.
\<close>

theorem C10_unsupported_branch_unreachable:
  "property_to_input_type prop \<noteq> DURATION
   \<and> (render_property_dispatch t = None) = (t = DURATION)
   \<and> render_property_dispatch (property_to_input_type prop) \<noteq> None"
proof -
  have a: "property_to_input_type prop \<noteq> DURATION"
    using property_to_input_type_cases [of "prop"] by auto
  have b: "(render_property_dispatch t = None) = (t = DURATION)" for t
    by (cases t) simp_all
  from a b show ?thesis by simp
qed

subsection \<open>Collection buttons\<close>

lemma add_button_disabled_iff:
  "is_add_button_disabled s n =
     (truthy_bool (readOnly s) \<or> (\<exists>m. maxItems s = Some m \<and> m \<le> n))"
  by (simp add: is_add_button_disabled_def split: option.split)

lemma remove_button_disabled_iff:
  "is_remove_button_disabled s n =
     (truthy_bool (readOnly s) \<or> (\<exists>m. minItems s = Some m \<and> n - 1 < m))"
  by (auto simp add: is_remove_button_disabled_def split: option.split)

text \<open>
  Claim C4.  The add and remove predicates are as the claim says, but
  \<open>_is_clear_button_disabled\<close> is inverted: it answers \<open>False\<close> (enabled) for a read-only
  schema and \<open>True\<close> (disabled) for every other schema.
\<close>

theorem C4_clear_button_inverted:
  "is_clear_button_disabled (read_only_schema True) = False
   \<and> is_clear_button_disabled (read_only_schema False) = True
   \<and> is_clear_button_disabled empty_schema = True"
  by (simp add: is_clear_button_disabled_def read_only_schema_def empty_schema_def truthy_bool_def)

subsection \<open>Case conversion\<close>

lemmas case_conversion_defs =
  to_title_case_def to_kebab_case_def to_snake_case_def str_title_def str_strip_def str_replace_def
  squeeze_separators_def str_lower_def mark_capitals_def is_separator_def is_upper_def is_cased_def
  char_lower_def char_title_def is_space_def has_lowercase_def has_uppercase_def

















lemma space_not_separator: "\<not> is_separator CHR '' ''"
  by (simp add: is_separator_def)



















































lemma char_of_literal: "(char_of (n :: nat) = c) = (n mod 256 = of_char c)"
  by (metis of_char_eq_iff of_char_of)

lemmas case_conversion_eval = case_conversion_defs code_point_def char_of_literal





lemma to_title_case_latin1: "to_title_case [CHR 0xE9, CHR ''c'', CHR ''o'', CHR ''l'', CHR ''e'', CHR ''_'', CHR 0xDF]
    = Some [CHR 0xC9, CHR ''c'', CHR ''o'', CHR ''l'', CHR ''e'', CHR '' '', CHR ''S'', CHR ''s'']"
  by (simp add: case_conversion_eval)






subsection \<open>The key-path state store\<close>













end
